theory Spec2Isabelle
  imports Main "HOL-Library.Word"
begin

unbundle bit_operations_syntax

section \<open>Library types the assets are built from\<close>

subsection \<open>Package \<open>net\<close>: addresses, their text form, networks\<close>

text \<open>
  A \<open>net.IP\<close> is a slice of bytes, four of them for an IPv4 address and sixteen for an
  IPv6 address; the \<open>nil\<close> slice is the empty list. A \<open>net.IPNet\<close> is an address and
  a mask. The functions below follow the Go library: \<open>IPv4\<close>, \<open>To4\<close>, \<open>IP.String\<close>,
  \<open>ParseIP\<close> (with its helpers \<open>dtoi\<close>, \<open>xtoi\<close>, \<open>parseIPv4\<close>, \<open>parseIPv6\<close>) and
  \<open>IPMask.Size\<close>, as they were in the Go releases of the repository's time: a decimal
  field of an IPv4 address may start with zeros, and \<open>ParseIP\<close> reads no zone.
\<close>

type_synonym byte = "8 word"
type_synonym IP = "byte list"
type_synonym IPMask = "byte list"

record net_IPNet =
  IP :: IP
  Mask :: IPMask

definition IPv4len :: nat where
  "IPv4len = 4"

definition IPv6len :: nat where
  "IPv6len = 16"

definition v4InV6Prefix :: "byte list" where
  "v4InV6Prefix = [0, 0, 0, 0, 0, 0, 0, 0, 0, 0, 0xff, 0xff]"

definition IPv4 :: "byte \<Rightarrow> byte \<Rightarrow> byte \<Rightarrow> byte \<Rightarrow> IP" where
  "IPv4 a b c d = v4InV6Prefix @ [a, b, c, d]"

definition To4 :: "IP \<Rightarrow> IP" where
  "To4 ip =
     (if length ip = IPv4len then ip
      else if length ip = IPv6len \<and> take 12 ip = v4InV6Prefix then drop 12 ip
      else [])"

definition hexDigit :: string where
  "hexDigit = ''0123456789abcdef''"

text \<open>Decimal and hexadecimal digits of a number, most significant first, no leading zero.\<close>

function uitoa :: "nat \<Rightarrow> string" where
  "uitoa val =
     (if val < 10 then [hexDigit ! val]
      else uitoa (val div 10) @ [hexDigit ! (val mod 10)])"
  by pat_completeness auto
termination
  by (relation "measure (\<lambda>val. val)") auto

function appendHex :: "nat \<Rightarrow> string" where
  "appendHex i =
     (if i < 16 then [hexDigit ! i]
      else appendHex (i div 16) @ [hexDigit ! (i mod 16)])"
  by pat_completeness auto
termination
  by (relation "measure (\<lambda>i. i)") auto

definition hexString :: "byte list \<Rightarrow> string" where
  "hexString b =
     concat (map (\<lambda>tn. [hexDigit ! (unat tn div 16), hexDigit ! (unat tn mod 16)]) b)"

text \<open>The eight 16-bit groups of a 16-byte address.\<close>

fun groups16 :: "byte list \<Rightarrow> nat list" where
  "groups16 (hi # lo # rest) = (unat hi * 256 + unat lo) # groups16 rest"
| "groups16 _ = []"

text \<open>
  \<open>IP.String\<close> looks for the longest run of zero groups, the leftmost one among runs of
  the same length: \<open>longest_zero_run gs i (e0, n)\<close> scans the groups from index \<open>i\<close>
  and keeps the start and the length of the best run so far.
\<close>

fun longest_zero_run :: "nat list \<Rightarrow> nat \<Rightarrow> nat \<times> nat \<Rightarrow> nat \<times> nat" where
  "longest_zero_run [] i best = best"
| "longest_zero_run (g # gs) i (e0, n) =
     (let r = length (takeWhile (\<lambda>x. x = 0) (g # gs))
      in longest_zero_run gs (Suc i) (if r > n then (i, r) else (e0, n)))"

fun join_colon :: "string list \<Rightarrow> string" where
  "join_colon [] = []"
| "join_colon [x] = x"
| "join_colon (x # y # ys) = x @ '':'' @ join_colon (y # ys)"

definition IP_String :: "IP \<Rightarrow> string" where
  "IP_String ip =
     (if length ip = 0 then ''<nil>''
      else if length (To4 ip) = IPv4len then
        (case To4 ip of
           [a, b, c, d] \<Rightarrow>
             uitoa (unat a) @ ''.'' @ uitoa (unat b) @ ''.'' @ uitoa (unat c) @ ''.'' @ uitoa (unat d)
         | _ \<Rightarrow> [])
      else if length ip \<noteq> IPv6len then ''?'' @ hexString ip
      else
        (let gs = groups16 ip; (e0, n) = longest_zero_run gs 0 (0, 0)
         in if n \<le> 1 then join_colon (map appendHex gs)
            else join_colon (map appendHex (take e0 gs)) @ ''::'' @
                 join_colon (map appendHex (drop (e0 + n) gs))))"

definition big :: nat where
  "big = 0xFFFFFF"

definition is_digit :: "char \<Rightarrow> bool" where
  "is_digit c = (48 \<le> (of_char c :: nat) \<and> (of_char c :: nat) \<le> 57)"

text \<open>
  \<open>dtoi\<close> and \<open>xtoi\<close> read a decimal and a hexadecimal number at the start of a string
  and return the number, the count of characters read and whether a number was there.
\<close>

fun dtoi_loop :: "string \<Rightarrow> nat \<Rightarrow> nat \<Rightarrow> nat \<times> nat \<times> bool" where
  "dtoi_loop [] n i = (if i = 0 then (0, 0, False) else (n, i, True))"
| "dtoi_loop (c # cs) n i =
     (if is_digit c then
        (let n' = n * 10 + (of_char c - 48)
         in if n' \<ge> big then (big, i, False) else dtoi_loop cs n' (Suc i))
      else if i = 0 then (0, 0, False) else (n, i, True))"

definition dtoi :: "string \<Rightarrow> nat \<times> nat \<times> bool" where
  "dtoi s = dtoi_loop s 0 0"

definition hex_val :: "char \<Rightarrow> nat option" where
  "hex_val c =
     (let k = (of_char c :: nat)
      in if 48 \<le> k \<and> k \<le> 57 then Some (k - 48)
         else if 97 \<le> k \<and> k \<le> 102 then Some (k - 97 + 10)
         else if 65 \<le> k \<and> k \<le> 70 then Some (k - 65 + 10)
         else None)"

fun xtoi_loop :: "string \<Rightarrow> nat \<Rightarrow> nat \<Rightarrow> nat \<times> nat \<times> bool" where
  "xtoi_loop [] n i = (if i = 0 then (0, i, False) else (n, i, True))"
| "xtoi_loop (c # cs) n i =
     (case hex_val c of
        None \<Rightarrow> (if i = 0 then (0, i, False) else (n, i, True))
      | Some d \<Rightarrow>
          (let n' = n * 16 + d
           in if n' \<ge> big then (0, i, False) else xtoi_loop cs n' (Suc i)))"

definition xtoi :: "string \<Rightarrow> nat \<times> nat \<times> bool" where
  "xtoi s = xtoi_loop s 0 0"

text \<open>
  \<open>parseIPv4\<close>: four decimal fields of at most 255, the second to the fourth after a
  dot, and nothing after the fourth. \<open>dtoi_field i s\<close> is the string at the number of
  field \<open>i\<close>.
\<close>

definition dtoi_field :: "nat \<Rightarrow> string \<Rightarrow> string" where
  "dtoi_field i s = (if i > 0 then tl s else s)"

function parseIPv4_loop :: "nat \<Rightarrow> string \<Rightarrow> byte list \<Rightarrow> IP" where
  "parseIPv4_loop i s p =
     (if \<not> i < IPv4len then
        (if s \<noteq> [] then []
         else case p of [a, b, c, d] \<Rightarrow> IPv4 a b c d | _ \<Rightarrow> [])
      else if s = [] then []
      else if i > 0 \<and> hd s \<noteq> CHR ''.'' then []
      else if \<not> snd (snd (dtoi (dtoi_field i s))) \<or> fst (dtoi (dtoi_field i s)) > 0xFF then []
      else parseIPv4_loop (Suc i)
             (drop (fst (snd (dtoi (dtoi_field i s)))) (dtoi_field i s))
             (p @ [of_nat (fst (dtoi (dtoi_field i s)))]))"
  by pat_completeness auto
termination
  by (relation "measure (\<lambda>(i, s, p). IPv4len - i)") (auto simp: IPv4len_def)

definition parseIPv4 :: "string \<Rightarrow> IP" where
  "parseIPv4 s = parseIPv4_loop 0 s []"

text \<open>
  \<open>parseIPv6\<close>: one turn of its loop reads a group at the start of \<open>s\<close> into the bytes
  \<open>ip\<close> read so far; \<open>ellipsis\<close> is the position of \<open>::\<close> when it has been seen. The
  turn fails (the parse returns \<open>nil\<close>), leaves the loop, or goes on.
\<close>

datatype loop_step = Fail | Break | Continue

definition parseIPv6_step ::
  "string \<Rightarrow> byte list \<Rightarrow> nat option \<Rightarrow> loop_step \<times> string \<times> byte list \<times> nat option" where
  "parseIPv6_step s ip ellipsis =
     (case xtoi s of
        (n, c, ok) \<Rightarrow>
          if \<not> ok \<or> n > 0xFFFF then (Fail, s, ip, ellipsis)
          else if c < length s \<and> s ! c = CHR ''.'' then
            (if ellipsis = None \<and> length ip \<noteq> IPv6len - IPv4len then (Fail, s, ip, ellipsis)
             else if length ip + IPv4len > IPv6len then (Fail, s, ip, ellipsis)
             else if parseIPv4 s = [] then (Fail, s, ip, ellipsis)
             else (Break, [], ip @ drop 12 (parseIPv4 s), ellipsis))
          else
            (let ip' = ip @ [of_nat (n div 256), of_nat n]; s1 = drop c s
             in if s1 = [] then (Break, s1, ip', ellipsis)
                else if hd s1 \<noteq> CHR '':'' \<or> length s1 = 1 then (Fail, s1, ip', ellipsis)
                else
                  (let s2 = tl s1
                   in if hd s2 = CHR '':'' then
                        (if ellipsis \<noteq> None then (Fail, s2, ip', ellipsis)
                         else if tl s2 = [] then (Break, tl s2, ip', Some (length ip'))
                         else (Continue, tl s2, ip', Some (length ip')))
                      else (Continue, s2, ip', ellipsis))))"

lemma parseIPv6_step_Continue:
  "fst (parseIPv6_step s ip ellipsis) = Continue \<Longrightarrow>
   length (fst (snd (snd (parseIPv6_step s ip ellipsis)))) = length ip + 2"
  unfolding parseIPv6_step_def Let_def
  by (cases "xtoi s") (auto split: if_splits)

function parseIPv6_loop ::
  "string \<Rightarrow> byte list \<Rightarrow> nat option \<Rightarrow> (string \<times> byte list \<times> nat option) option" where
  "parseIPv6_loop s ip ellipsis =
     (if \<not> length ip < IPv6len then Some (s, ip, ellipsis)
      else if fst (parseIPv6_step s ip ellipsis) = Fail then None
      else if fst (parseIPv6_step s ip ellipsis) = Break then
        Some (snd (parseIPv6_step s ip ellipsis))
      else parseIPv6_loop (fst (snd (parseIPv6_step s ip ellipsis)))
             (fst (snd (snd (parseIPv6_step s ip ellipsis))))
             (snd (snd (snd (parseIPv6_step s ip ellipsis)))))"
  by pat_completeness auto
termination
proof (relation "measure (\<lambda>(s, ip, ellipsis). IPv6len - length ip)")
  fix s :: string and ip :: "byte list" and ellipsis :: "nat option"
  assume lt: "\<not> \<not> length ip < IPv6len"
    and "fst (parseIPv6_step s ip ellipsis) \<noteq> Fail"
    and "fst (parseIPv6_step s ip ellipsis) \<noteq> Break"
  then have "fst (parseIPv6_step s ip ellipsis) = Continue"
    by (cases "fst (parseIPv6_step s ip ellipsis)") auto
  from parseIPv6_step_Continue [OF this] lt
  show "((fst (snd (parseIPv6_step s ip ellipsis)),
          fst (snd (snd (parseIPv6_step s ip ellipsis))),
          snd (snd (snd (parseIPv6_step s ip ellipsis)))), s, ip, ellipsis)
        \<in> measure (\<lambda>(s, ip, ellipsis). IPv6len - length ip)"
    by (simp add: case_prod_beta)
qed simp

definition parseIPv6 :: "string \<Rightarrow> IP" where
  "parseIPv6 s =
     (let lead = (case s of x # y # rest \<Rightarrow> x = CHR '':'' \<and> y = CHR '':'' | _ \<Rightarrow> False);
          ellipsis = (if lead then Some 0 else None);
          s1 = (if lead then drop 2 s else s)
      in if lead \<and> s1 = [] then replicate IPv6len 0
         else
           case parseIPv6_loop s1 [] ellipsis of
             None \<Rightarrow> []
           | Some (s2, ip, ell) \<Rightarrow>
               if s2 \<noteq> [] then []
               else if length ip < IPv6len then
                 (case ell of
                    None \<Rightarrow> []
                  | Some e \<Rightarrow> take e ip @ replicate (IPv6len - length ip) 0 @ drop e ip)
               else if ell \<noteq> None then []
               else ip)"

text \<open>
  \<open>ParseIP\<close> looks for the first dot or colon of the string and parses the whole string
  as IPv4 or as IPv6; a string with neither is no address.
\<close>

fun ParseIP_scan :: "string \<Rightarrow> string \<Rightarrow> IP" where
  "ParseIP_scan s [] = []"
| "ParseIP_scan s (c # cs) =
     (if c = CHR ''.'' then parseIPv4 s
      else if c = CHR '':'' then parseIPv6 s
      else ParseIP_scan s cs)"

definition ParseIP :: "string \<Rightarrow> IP" where
  "ParseIP s = ParseIP_scan s s"

text \<open>
  \<open>IPMask.Size\<close>: the number of leading ones and the number of bits of a mask in
  canonical form (ones followed by zeros), and \<open>(0, 0)\<close> for any other mask.
  \<open>simpleMaskLength\<close> returns \<open>None\<close> where the Go function returns \<open>-1\<close>.
\<close>

definition leading_ones :: "byte \<Rightarrow> nat" where
  "leading_ones v =
     length (takeWhile (\<lambda>k. unat v div 2 ^ k mod 2 = 1) [7, 6, 5, 4, 3, 2, 1, 0])"

fun simpleMaskLength :: "IPMask \<Rightarrow> nat option" where
  "simpleMaskLength [] = Some 0"
| "simpleMaskLength (v # rest) =
     (if v = 0xff then map_option (\<lambda>n. n + 8) (simpleMaskLength rest)
      else if push_bit (leading_ones v) v \<noteq> 0 then None
      else if list_ex (\<lambda>b. b \<noteq> 0) rest then None
      else Some (leading_ones v))"

definition Mask_Size :: "IPMask \<Rightarrow> nat \<times> nat" where
  "Mask_Size m =
     (case simpleMaskLength m of
        None \<Rightarrow> (0, 0)
      | Some ones \<Rightarrow> (ones, length m * 8))"


subsection \<open>Package \<open>crypto/x509\<close>: key usages\<close>

text \<open>
  \<open>x509.KeyUsage\<close> is an \<open>int\<close> used as a bit set, one bit per usage in the order of the
  library's declaration; \<open>x509.ExtKeyUsage\<close> is an enumeration.
\<close>

type_synonym KeyUsage = "64 word"

definition KeyUsageDigitalSignature :: KeyUsage where
  "KeyUsageDigitalSignature = push_bit 0 1"

definition KeyUsageContentCommitment :: KeyUsage where
  "KeyUsageContentCommitment = push_bit 1 1"

definition KeyUsageKeyEncipherment :: KeyUsage where
  "KeyUsageKeyEncipherment = push_bit 2 1"

definition KeyUsageDataEncipherment :: KeyUsage where
  "KeyUsageDataEncipherment = push_bit 3 1"

definition KeyUsageKeyAgreement :: KeyUsage where
  "KeyUsageKeyAgreement = push_bit 4 1"

definition KeyUsageCertSign :: KeyUsage where
  "KeyUsageCertSign = push_bit 5 1"

definition KeyUsageCRLSign :: KeyUsage where
  "KeyUsageCRLSign = push_bit 6 1"

text \<open>A usage is included in a bit set when its bit is set.\<close>

definition includes_usage :: "KeyUsage \<Rightarrow> KeyUsage \<Rightarrow> bool" where
  "includes_usage usages u = (usages AND u = u)"

datatype ExtKeyUsage =
    ExtKeyUsageAny
  | ExtKeyUsageServerAuth
  | ExtKeyUsageClientAuth
  | ExtKeyUsageCodeSigning
  | ExtKeyUsageEmailProtection
  | ExtKeyUsageIPSECEndSystem
  | ExtKeyUsageIPSECTunnel
  | ExtKeyUsageIPSECUser
  | ExtKeyUsageTimeStamping
  | ExtKeyUsageOCSPSigning

subsection \<open>Package \<open>crypto/x509/pkix\<close>: names\<close>

text \<open>The fields of \<open>pkix.Name\<close> that the assets set; the others keep their zero value.\<close>

record pkix_Name =
  CommonName :: string
  Organization :: "string list"
  OrganizationalUnit :: "string list"

section \<open>What package \<open>tls\<close> declares outside \<open>apiserver.go\<close>\<close>

text \<open>
  Modelled from the spec: the validity constants \<open>ValidityOneDay\<close>, \<open>ValidityOneYear\<close>
  and \<open>ValidityTenYears\<close> are declared outside \<open>apiserver.go\<close>. The spec has them as
  "fixed named constants -- one day, one year, ten years"; the model keeps the three
  names apart and gives them no length.
\<close>

datatype Validity = ValidityOneDay | ValidityOneYear | ValidityTenYears

text \<open>
  The struct \<open>CertCfg\<close>, with the fields that the composite literals of \<open>apiserver.go\<close>
  set. A field that a literal leaves out has its zero value: \<open>False\<close> for \<open>IsCA\<close>, the
  empty list for a slice.
\<close>

record CertCfg =
  Subject :: pkix_Name
  KeyUsages :: KeyUsage
  ExtKeyUsages :: "ExtKeyUsage list"
  Validity :: Validity
  IsCA :: bool
  DNSNames :: "string list"
  IPAddresses :: "IP list"

text \<open>The chain policy handed to \<open>SignedCertKey.Generate\<close>.\<close>

datatype AppendParentChoice = DoNotAppendParent | AppendParent

text \<open>
  Go errors are values. \<open>OffsetExceedsNetwork p n\<close> is the failure of the address
  helper for a network of prefix length \<open>p\<close> and the offset \<open>n\<close>; \<open>Wrap err msg\<close> is
  \<open>errors.Wrap(err, msg)\<close> for an \<open>err\<close> that is not \<open>nil\<close>.
\<close>

datatype error = OffsetExceedsNetwork nat nat | Wrap error string

text \<open>
  Modelled from the spec: the helper \<open>cidrhost\<close> is declared outside \<open>apiserver.go\<close>.
  The spec has it as "a pure function \<open>HostAtOffset(network CIDR, offset int) ->
  Result<IPAddress, Error>\<close>, failing when the offset exceeds the network's address
  space", which gives "the Nth usable host address inside this CIDR". The model reads an
  address as a number, most significant byte first. The network's address space is
  \<open>2 ^ hostLen\<close> addresses, where \<open>hostLen\<close> counts the bits that the mask leaves free;
  the network's own address has these bits cleared, and the address at offset \<open>N\<close> is
  \<open>N\<close> above it. The offset is a count of addresses, a natural number: \<open>apiserver.go\<close>
  passes the literal \<open>1\<close>, and the spec says nothing of an offset below zero.
  \<open>cidrhost\<close> returns the address in its text form, which its callers give to
  \<open>net.ParseIP\<close>.
\<close>

definition ipToInt :: "IP \<Rightarrow> nat" where
  "ipToInt ip = foldl (\<lambda>acc b. acc * 256 + unat b) 0 ip"

fun intToIP :: "nat \<Rightarrow> nat \<Rightarrow> IP" where
  "intToIP 0 v = []"
| "intToIP (Suc len) v = intToIP len (v div 256) @ [of_nat v]"

definition hostLen :: "net_IPNet \<Rightarrow> nat" where
  "hostLen network = snd (Mask_Size (Mask network)) - fst (Mask_Size (Mask network))"

definition network_address :: "net_IPNet \<Rightarrow> nat" where
  "network_address network = ipToInt (IP network) div 2 ^ hostLen network * 2 ^ hostLen network"

definition HostAtOffset :: "net_IPNet \<Rightarrow> nat \<Rightarrow> error + IP" where
  "HostAtOffset network offset =
     (if 2 ^ hostLen network \<le> offset then
        Inl (OffsetExceedsNetwork (fst (Mask_Size (Mask network))) offset)
      else Inr (intToIP (length (IP network)) (network_address network + offset)))"

definition cidrhost :: "net_IPNet \<Rightarrow> nat \<Rightarrow> error + string" where
  "cidrhost network hostNum =
     (case HostAtOffset network hostNum of
        Inl err \<Rightarrow> Inl err
      | Inr ip \<Rightarrow> Inr (IP_String ip))"

section \<open>The install config\<close>

text \<open>
  The path \<open>installConfig.Config.Networking.ServiceCIDR.IPNet\<close> that \<open>apiserver.go\<close>
  reads, one record for each struct on the way.

  Modelled from the spec: the helper \<open>apiAddress\<close> is declared outside \<open>apiserver.go\<close>.
  The spec has the install config supply "a service network CIDR and the cluster's
  externally reachable API address string"; the model keeps this string in the field
  \<open>APIAddress\<close> of the config, and \<open>apiAddress\<close> reads it.
\<close>

record ipnet_IPNet =
  IPNet :: net_IPNet

record types_Networking =
  ServiceCIDR :: ipnet_IPNet

record types_InstallConfig =
  Networking :: types_Networking
  APIAddress :: string

record installconfig_InstallConfig =
  Config :: types_InstallConfig

definition apiAddress :: "types_InstallConfig \<Rightarrow> string" where
  "apiAddress cfg = APIAddress cfg"


section \<open>The assets of \<open>apiserver.go\<close>\<close>

text \<open>
  An asset is identified by its Go type. \<open>KubeCA\<close> and \<open>InstallConfig\<close> are declared in
  other files; the thirteen others are the types of \<open>apiserver.go\<close>, in the order of the
  file.
\<close>

datatype Asset =
    KubeCA
  | InstallConfig
  | APIServerCertKey
  | KubeAPIServerToKubeletSignerCertKey
  | KubeAPIServerToKubeletCABundle
  | KubeAPIServerToKubeletClientCertKey
  | KubeAPIServerLocalhostSignerCertKey
  | KubeAPIServerLocalhostCABundle
  | KubeAPIServerLocalhostServerCertKey
  | KubeAPIServerServiceNetworkSignerCertKey
  | KubeAPIServerServiceNetworkCABundle
  | KubeAPIServerServiceNetworkServerCertKey
  | KubeAPIServerLBSignerCertKey
  | KubeAPIServerLBCABundle
  | KubeAPIServerLBServerCertKey

definition apiserver_assets :: "Asset list" where
  "apiserver_assets =
     [APIServerCertKey,
      KubeAPIServerToKubeletSignerCertKey,
      KubeAPIServerToKubeletCABundle,
      KubeAPIServerToKubeletClientCertKey,
      KubeAPIServerLocalhostSignerCertKey,
      KubeAPIServerLocalhostCABundle,
      KubeAPIServerLocalhostServerCertKey,
      KubeAPIServerServiceNetworkSignerCertKey,
      KubeAPIServerServiceNetworkCABundle,
      KubeAPIServerServiceNetworkServerCertKey,
      KubeAPIServerLBSignerCertKey,
      KubeAPIServerLBCABundle,
      KubeAPIServerLBServerCertKey]"

text \<open>The struct that each type of the file embeds, from its type declaration.\<close>

datatype Embedded = SignedCertKey | SelfSignedCertKey | CertBundle

fun embedded :: "Asset \<Rightarrow> Embedded" where
  "embedded APIServerCertKey = SignedCertKey"
| "embedded KubeAPIServerToKubeletSignerCertKey = SelfSignedCertKey"
| "embedded KubeAPIServerToKubeletCABundle = CertBundle"
| "embedded KubeAPIServerToKubeletClientCertKey = SignedCertKey"
| "embedded KubeAPIServerLocalhostSignerCertKey = SelfSignedCertKey"
| "embedded KubeAPIServerLocalhostCABundle = CertBundle"
| "embedded KubeAPIServerLocalhostServerCertKey = SignedCertKey"
| "embedded KubeAPIServerServiceNetworkSignerCertKey = SelfSignedCertKey"
| "embedded KubeAPIServerServiceNetworkCABundle = CertBundle"
| "embedded KubeAPIServerServiceNetworkServerCertKey = SignedCertKey"
| "embedded KubeAPIServerLBSignerCertKey = SelfSignedCertKey"
| "embedded KubeAPIServerLBCABundle = CertBundle"
| "embedded KubeAPIServerLBServerCertKey = SignedCertKey"

text \<open>
  Modelled from the spec: the interface \<open>CertInterface\<close> and the methods that implement
  it are declared outside \<open>apiserver.go\<close>. The spec's bundle aggregator takes
  \<open>SigningAuthority\<close> values, "a KeyCertPair whose certificate has \<open>isCA = true\<close>", and
  the self-signed issuance is the operation that returns one: in the model an asset
  converts to \<open>CertInterface\<close> when its type embeds \<open>SelfSignedCertKey\<close>.
\<close>

definition implements_CertInterface :: "Asset \<Rightarrow> bool" where
  "implements_CertInterface a = (a \<in> set apiserver_assets \<and> embedded a = SelfSignedCertKey)"

subsection \<open>Parents\<close>

text \<open>
  Modelled from the spec: the type \<open>asset.Parents\<close> and its method \<open>Get\<close> are declared
  outside \<open>apiserver.go\<close>. The spec has \<open>Parents\<close> as "a mapping from asset identity to
  its generated instance", read-only during a \<open>Generate\<close>. A generated instance is an
  install config, a key and certificate pair or a bundle of certificates. \<open>Get\<close> copies
  the instance under each of its keys, in order, into the caller's variable; the executor
  resolves the declared dependencies before it calls \<open>Generate\<close>, and a key with no
  instance is a panic of the caller.
\<close>

datatype Generated =
    InstallConfigAsset installconfig_InstallConfig
  | CertKeyAsset "byte list" "byte list"
  | CertBundleAsset "byte list"

type_synonym Parents = "Asset \<rightharpoonup> Generated"

datatype panic = MissingParent Asset | InterfaceConversion Asset

datatype failure = Error error | Panic panic

definition Get1 :: "Parents \<Rightarrow> Asset \<Rightarrow> failure + Generated" where
  "Get1 p a = (case p a of None \<Rightarrow> Inl (Panic (MissingParent a)) | Some v \<Rightarrow> Inr v)"

text \<open>
  A \<open>Generate\<close> of the model returns the keys that it has read from \<open>Parents\<close>, in the
  order of the reads, beside its result.
\<close>

fun Get :: "Parents \<Rightarrow> Asset list \<Rightarrow> Asset list \<times> (failure + Generated list)" where
  "Get p [] = ([], Inr [])"
| "Get p (a # as) =
     (case Get1 p a of
        Inl f \<Rightarrow> ([a], Inl f)
      | Inr v \<Rightarrow>
          (case Get p as of
             (reads, Inl f) \<Rightarrow> (a # reads, Inl f)
           | (reads, Inr vs) \<Rightarrow> (a # reads, Inr (v # vs))))"

definition and_then ::
  "Asset list \<times> (failure + 'a) \<Rightarrow> ('a \<Rightarrow> failure + 'b) \<Rightarrow> Asset list \<times> (failure + 'b)" where
  "and_then m k =
     (case m of
        (reads, Inl f) \<Rightarrow> (reads, Inl f)
      | (reads, Inr x) \<Rightarrow> (reads, k x))"

subsection \<open>Dependencies\<close>

fun Dependencies :: "Asset \<Rightarrow> Asset list" where
  "Dependencies APIServerCertKey = [KubeCA, InstallConfig]"
| "Dependencies KubeAPIServerToKubeletSignerCertKey = []"
| "Dependencies KubeAPIServerToKubeletCABundle = [KubeAPIServerToKubeletSignerCertKey]"
| "Dependencies KubeAPIServerToKubeletClientCertKey = [KubeAPIServerToKubeletSignerCertKey]"
| "Dependencies KubeAPIServerLocalhostSignerCertKey = []"
| "Dependencies KubeAPIServerLocalhostCABundle = [KubeAPIServerLocalhostSignerCertKey]"
| "Dependencies KubeAPIServerLocalhostServerCertKey = [KubeAPIServerLocalhostSignerCertKey]"
| "Dependencies KubeAPIServerServiceNetworkSignerCertKey = []"
| "Dependencies KubeAPIServerServiceNetworkCABundle = [KubeAPIServerServiceNetworkSignerCertKey]"
| "Dependencies KubeAPIServerServiceNetworkServerCertKey =
     [KubeAPIServerServiceNetworkSignerCertKey, InstallConfig]"
| "Dependencies KubeAPIServerLBSignerCertKey = []"
| "Dependencies KubeAPIServerLBCABundle = [KubeAPIServerLBSignerCertKey]"
| "Dependencies KubeAPIServerLBServerCertKey = [KubeAPIServerLBSignerCertKey, InstallConfig]"

subsection \<open>Generate\<close>

text \<open>
  Every \<open>Generate\<close> of the file ends in a call of the \<open>Generate\<close> of the struct that its
  type embeds, which is declared in another file and draws random keys. The model
  returns this call with its arguments instead of making it: the certificate
  configuration, the issuer (its key and the instance read from \<open>Parents\<close>), the base
  name and the chain policy; for a bundle, the name and the certificates in the order of
  the variadic arguments.
\<close>

type_synonym Instance = "Asset \<times> Generated"

datatype Call =
    SignedCertKey_Generate CertCfg Instance string AppendParentChoice
  | SelfSignedCertKey_Generate CertCfg string
  | CertBundle_Generate string "Instance list"

text \<open>
  The loop of a bundle's \<open>Generate\<close>: for each asset of the list, \<open>deps.Get(asset)\<close>, then
  the type assertion \<open>asset.(CertInterface)\<close>, which panics for a type that does not
  implement the interface, then \<open>append\<close>.
\<close>

fun collect_certs ::
  "Parents \<Rightarrow> Asset list \<Rightarrow> Instance list \<Rightarrow> Asset list \<times> (failure + Instance list)" where
  "collect_certs deps [] certs = ([], Inr certs)"
| "collect_certs deps (asset # rest) certs =
     (case Get1 deps asset of
        Inl f \<Rightarrow> ([asset], Inl f)
      | Inr v \<Rightarrow>
          if implements_CertInterface asset then
            (case collect_certs deps rest (certs @ [(asset, v)]) of
               (reads, r) \<Rightarrow> (asset # reads, r))
          else ([asset], Inl (Panic (InterfaceConversion asset))))"

fun Generate :: "Asset \<Rightarrow> Parents \<Rightarrow> Asset list \<times> (failure + Call)" where
  "Generate APIServerCertKey dependencies =
     and_then (Get dependencies [KubeCA, InstallConfig])
       (\<lambda>got. case got of
          [kubeCA, InstallConfigAsset installConfig] \<Rightarrow>
            (case cidrhost (IPNet (ServiceCIDR (Networking (Config installConfig)))) 1 of
               Inl err \<Rightarrow>
                 Inl (Error (Wrap err ''failed to get API Server address from InstallConfig''))
             | Inr apiServerAddress \<Rightarrow>
                 Inr (SignedCertKey_Generate
                   \<lparr>Subject = \<lparr>CommonName = ''system:kube-apiserver'',
                                Organization = [''kube-master''],
                                OrganizationalUnit = []\<rparr>,
                    KeyUsages = KeyUsageKeyEncipherment OR KeyUsageDigitalSignature,
                    ExtKeyUsages = [ExtKeyUsageServerAuth, ExtKeyUsageClientAuth],
                    Validity = ValidityTenYears,
                    IsCA = False,
                    DNSNames =
                      [apiAddress (Config installConfig),
                       ''kubernetes'', ''kubernetes.default'',
                       ''kubernetes.default.svc'',
                       ''kubernetes.default.svc.cluster.local'',
                       ''localhost''],
                    IPAddresses = [ParseIP apiServerAddress, ParseIP ''127.0.0.1'']\<rparr>
                   (KubeCA, kubeCA) ''apiserver'' AppendParent))
        | _ \<Rightarrow> Inl (Panic (MissingParent InstallConfig)))"
| "Generate KubeAPIServerToKubeletSignerCertKey parents =
     ([], Inr (SelfSignedCertKey_Generate
       \<lparr>Subject = \<lparr>CommonName = ''kube-apiserver-to-kubelet-signer'',
                    Organization = [],
                    OrganizationalUnit = [''openshift'']\<rparr>,
        KeyUsages = KeyUsageKeyEncipherment OR KeyUsageDigitalSignature OR KeyUsageCertSign,
        ExtKeyUsages = [],
        Validity = ValidityOneYear,
        IsCA = True,
        DNSNames = [],
        IPAddresses = []\<rparr>
       ''kube-apiserver-to-kubelet-signer''))"
| "Generate KubeAPIServerToKubeletCABundle deps =
     and_then (collect_certs deps (Dependencies KubeAPIServerToKubeletCABundle) [])
       (\<lambda>certs. Inr (CertBundle_Generate ''kube-apiserver-to-kubelet-ca-bundle'' certs))"
| "Generate KubeAPIServerToKubeletClientCertKey dependencies =
     and_then (Get dependencies [KubeAPIServerToKubeletSignerCertKey])
       (\<lambda>got. case got of
          [ca] \<Rightarrow>
            Inr (SignedCertKey_Generate
              \<lparr>Subject = \<lparr>CommonName = ''system:kube-apiserver'',
                           Organization = [''kube-master''],
                           OrganizationalUnit = []\<rparr>,
               KeyUsages = KeyUsageKeyEncipherment OR KeyUsageDigitalSignature,
               ExtKeyUsages = [ExtKeyUsageClientAuth],
               Validity = ValidityOneYear,
               IsCA = False,
               DNSNames = [],
               IPAddresses = []\<rparr>
              (KubeAPIServerToKubeletSignerCertKey, ca)
              ''kube-apiserver-to-kubelet-client'' DoNotAppendParent)
        | _ \<Rightarrow> Inl (Panic (MissingParent KubeAPIServerToKubeletSignerCertKey)))"
| "Generate KubeAPIServerLocalhostSignerCertKey parents =
     ([], Inr (SelfSignedCertKey_Generate
       \<lparr>Subject = \<lparr>CommonName = ''kube-apiserver-localhost-signer'',
                    Organization = [],
                    OrganizationalUnit = [''openshift'']\<rparr>,
        KeyUsages = KeyUsageKeyEncipherment OR KeyUsageDigitalSignature OR KeyUsageCertSign,
        ExtKeyUsages = [],
        Validity = ValidityTenYears,
        IsCA = True,
        DNSNames = [],
        IPAddresses = []\<rparr>
       ''kube-apiserver-localhost-signer''))"
| "Generate KubeAPIServerLocalhostCABundle deps =
     and_then (collect_certs deps (Dependencies KubeAPIServerLocalhostCABundle) [])
       (\<lambda>certs. Inr (CertBundle_Generate ''kube-apiserver-localhost-ca-bundle'' certs))"
| "Generate KubeAPIServerLocalhostServerCertKey dependencies =
     and_then (Get dependencies [KubeAPIServerLocalhostSignerCertKey])
       (\<lambda>got. case got of
          [ca] \<Rightarrow>
            Inr (SignedCertKey_Generate
              \<lparr>Subject = \<lparr>CommonName = ''system:kube-apiserver'',
                           Organization = [''kube-master''],
                           OrganizationalUnit = []\<rparr>,
               KeyUsages = KeyUsageKeyEncipherment OR KeyUsageDigitalSignature,
               ExtKeyUsages = [ExtKeyUsageServerAuth],
               Validity = ValidityOneDay,
               IsCA = False,
               DNSNames = [''localhost''],
               IPAddresses = [ParseIP ''127.0.0.1'', ParseIP ''::1'']\<rparr>
              (KubeAPIServerLocalhostSignerCertKey, ca)
              ''kube-apiserver-localhost-server'' AppendParent)
        | _ \<Rightarrow> Inl (Panic (MissingParent KubeAPIServerLocalhostSignerCertKey)))"
| "Generate KubeAPIServerServiceNetworkSignerCertKey parents =
     ([], Inr (SelfSignedCertKey_Generate
       \<lparr>Subject = \<lparr>CommonName = ''kube-apiserver-service-network-signer'',
                    Organization = [],
                    OrganizationalUnit = [''openshift'']\<rparr>,
        KeyUsages = KeyUsageKeyEncipherment OR KeyUsageDigitalSignature OR KeyUsageCertSign,
        ExtKeyUsages = [],
        Validity = ValidityTenYears,
        IsCA = True,
        DNSNames = [],
        IPAddresses = []\<rparr>
       ''kube-apiserver-service-network-signer''))"
| "Generate KubeAPIServerServiceNetworkCABundle deps =
     and_then (collect_certs deps (Dependencies KubeAPIServerServiceNetworkCABundle) [])
       (\<lambda>certs. Inr (CertBundle_Generate ''kube-apiserver-service-network-ca-bundle'' certs))"
| "Generate KubeAPIServerServiceNetworkServerCertKey dependencies =
     and_then (Get dependencies [KubeAPIServerServiceNetworkSignerCertKey, InstallConfig])
       (\<lambda>got. case got of
          [ca, InstallConfigAsset installConfig] \<Rightarrow>
            (case cidrhost (IPNet (ServiceCIDR (Networking (Config installConfig)))) 1 of
               Inl err \<Rightarrow>
                 Inl (Error (Wrap err
                   ''failed to get service address for kube-apiserver from InstallConfig''))
             | Inr serviceAddress \<Rightarrow>
                 Inr (SignedCertKey_Generate
                   \<lparr>Subject = \<lparr>CommonName = ''system:kube-apiserver'',
                                Organization = [''kube-master''],
                                OrganizationalUnit = []\<rparr>,
                    KeyUsages = KeyUsageKeyEncipherment OR KeyUsageDigitalSignature,
                    ExtKeyUsages = [ExtKeyUsageServerAuth],
                    Validity = ValidityOneDay,
                    IsCA = False,
                    DNSNames =
                      [''kubernetes'', ''kubernetes.default'',
                       ''kubernetes.default.svc'',
                       ''kubernetes.default.svc.cluster.local''],
                    IPAddresses = [ParseIP serviceAddress]\<rparr>
                   (KubeAPIServerServiceNetworkSignerCertKey, ca)
                   ''kube-apiserver-service-network-server'' AppendParent))
        | _ \<Rightarrow> Inl (Panic (MissingParent InstallConfig)))"
| "Generate KubeAPIServerLBSignerCertKey parents =
     ([], Inr (SelfSignedCertKey_Generate
       \<lparr>Subject = \<lparr>CommonName = ''kube-apiserver-lb-signer'',
                    Organization = [],
                    OrganizationalUnit = [''openshift'']\<rparr>,
        KeyUsages = KeyUsageKeyEncipherment OR KeyUsageDigitalSignature OR KeyUsageCertSign,
        ExtKeyUsages = [],
        Validity = ValidityTenYears,
        IsCA = True,
        DNSNames = [],
        IPAddresses = []\<rparr>
       ''kube-apiserver-lb-signer''))"
| "Generate KubeAPIServerLBCABundle deps =
     and_then (collect_certs deps (Dependencies KubeAPIServerLBCABundle) [])
       (\<lambda>certs. Inr (CertBundle_Generate ''kube-apiserver-lb-ca-bundle'' certs))"
| "Generate KubeAPIServerLBServerCertKey dependencies =
     and_then (Get dependencies [KubeAPIServerLBSignerCertKey, InstallConfig])
       (\<lambda>got. case got of
          [ca, InstallConfigAsset installConfig] \<Rightarrow>
            Inr (SignedCertKey_Generate
              \<lparr>Subject = \<lparr>CommonName = ''system:kube-apiserver'',
                           Organization = [''kube-master''],
                           OrganizationalUnit = []\<rparr>,
               KeyUsages = KeyUsageKeyEncipherment OR KeyUsageDigitalSignature,
               ExtKeyUsages = [ExtKeyUsageServerAuth],
               Validity = ValidityOneDay,
               IsCA = False,
               DNSNames = [apiAddress (Config installConfig)],
               IPAddresses = []\<rparr>
              (KubeAPIServerLBSignerCertKey, ca) ''kube-apiserver-lb-server'' AppendParent)
        | _ \<Rightarrow> Inl (Panic (MissingParent InstallConfig)))"

subsection \<open>Name\<close>

fun Name :: "Asset \<Rightarrow> string" where
  "Name APIServerCertKey = ''Certificate (kube-apiaserver)''"
| "Name KubeAPIServerToKubeletSignerCertKey = ''Certificate (kube-apiserver-to-kubelet-signer)''"
| "Name KubeAPIServerToKubeletCABundle = ''Certificate (kube-apiserver-to-kubelet-ca-bundle)''"
| "Name KubeAPIServerToKubeletClientCertKey = ''Certificate (kube-apiserver-to-kubelet-client)''"
| "Name KubeAPIServerLocalhostSignerCertKey = ''Certificate (kube-apiserver-localhost-signer)''"
| "Name KubeAPIServerLocalhostCABundle = ''Certificate (kube-apiserver-localhost-ca-bundle)''"
| "Name KubeAPIServerLocalhostServerCertKey = ''Certificate (kube-apiserver-localhost-server)''"
| "Name KubeAPIServerServiceNetworkSignerCertKey =
     ''Certificate (kube-apiserver-service-network-signer)''"
| "Name KubeAPIServerServiceNetworkCABundle =
     ''Certificate (kube-apiserver-service-network-ca-bundle)''"
| "Name KubeAPIServerServiceNetworkServerCertKey =
     ''Certificate (kube-apiserver-service-network-server)''"
| "Name KubeAPIServerLBSignerCertKey = ''Certificate (kube-apiserver-lb-signer)''"
| "Name KubeAPIServerLBCABundle = ''Certificate (kube-apiserver-lb-ca-bundle)''"
| "Name KubeAPIServerLBServerCertKey = ''Certificate (kube-apiserver-lb-server)''"


subsection \<open>The cfg of a call\<close>

text \<open>The certificate configuration that a \<open>Generate\<close> has built, when it has built one.\<close>

fun call_cfg :: "Call \<Rightarrow> CertCfg option" where
  "call_cfg (SignedCertKey_Generate cfg ca name choice) = Some cfg"
| "call_cfg (SelfSignedCertKey_Generate cfg name) = Some cfg"
| "call_cfg (CertBundle_Generate name certs) = None"

definition generated_cfg :: "Asset \<Rightarrow> Parents \<Rightarrow> CertCfg option" where
  "generated_cfg a parents =
     (case snd (Generate a parents) of
        Inl f \<Rightarrow> None
      | Inr call \<Rightarrow> call_cfg call)"

section \<open>Two installations\<close>

text \<open>
  An installation with the service network \<open>10.0.0.0/16\<close>, in which the authorities
  that the file's assets depend on have been generated, and the same installation with
  the service network \<open>10.0.0.0/32\<close>, which has no address at offset 1.
\<close>

definition service_network :: net_IPNet where
  "service_network = \<lparr>IP = [10, 0, 0, 0], Mask = [255, 255, 0, 0]\<rparr>"

definition single_address_network :: net_IPNet where
  "single_address_network = \<lparr>IP = [10, 0, 0, 0], Mask = [255, 255, 255, 255]\<rparr>"

definition install_config_of :: "net_IPNet \<Rightarrow> installconfig_InstallConfig" where
  "install_config_of network =
     \<lparr>Config =
        \<lparr>Networking = \<lparr>ServiceCIDR = \<lparr>IPNet = network\<rparr>\<rparr>,
         APIAddress = ''api.cluster.example.com''\<rparr>\<rparr>"

definition resolved_parents :: "net_IPNet \<Rightarrow> Parents" where
  "resolved_parents network =
     [KubeCA \<mapsto> CertKeyAsset [1] [2],
      InstallConfig \<mapsto> InstallConfigAsset (install_config_of network),
      KubeAPIServerToKubeletSignerCertKey \<mapsto> CertKeyAsset [3] [4],
      KubeAPIServerLocalhostSignerCertKey \<mapsto> CertKeyAsset [5] [6],
      KubeAPIServerServiceNetworkSignerCertKey \<mapsto> CertKeyAsset [7] [8],
      KubeAPIServerLBSignerCertKey \<mapsto> CertKeyAsset [9] [10]]"

section \<open>Properties\<close>

subsection \<open>Reading from \<open>Parents\<close>\<close>

lemma fst_and_then: "fst (and_then m k) = fst m"
  by (auto simp: and_then_def split: prod.splits sum.splits)

lemma Get_resolved:
  "set as \<subseteq> dom p \<Longrightarrow> Get p as = (as, Inr (map (\<lambda>a. the (p a)) as))"
  by (induction as) (auto simp: Get1_def split: option.splits)

lemma collect_certs_resolved:
  "set as \<subseteq> dom p \<Longrightarrow> \<forall>a \<in> set as. implements_CertInterface a \<Longrightarrow>
   collect_certs p as certs = (as, Inr (certs @ map (\<lambda>a. (a, the (p a))) as))"
  by (induction as arbitrary: certs) (auto simp: Get1_def split: option.splits)

lemma collect_certs_no_conversion_panic:
  "\<forall>a \<in> set as. implements_CertInterface a \<Longrightarrow>
   collect_certs p as certs \<noteq> (reads, Inl (Panic (InterfaceConversion d)))"
  by (induction as arbitrary: certs reads)
     (auto simp: Get1_def split: option.splits sum.splits prod.splits)

lemma bundle_dependencies_implement:
  "a \<in> set apiserver_assets \<Longrightarrow> embedded a = CertBundle \<Longrightarrow>
   \<forall>d \<in> set (Dependencies a). implements_CertInterface d"
  by (auto simp: apiserver_assets_def implements_CertInterface_def)

lemma reads_eq_Dependencies:
  assumes "a \<in> set apiserver_assets" and "set (Dependencies a) \<subseteq> dom parents"
  shows "fst (Generate a parents) = Dependencies a"
proof -
  consider (leaf) "embedded a = SignedCertKey" | (signer) "embedded a = SelfSignedCertKey"
    | (bndl) "embedded a = CertBundle"
    by (cases "embedded a") auto
  then show ?thesis
  proof cases
    case leaf
    with assms show ?thesis
      by (auto simp: apiserver_assets_def fst_and_then Get_resolved simp del: Get.simps)
  next
    case signer
    with assms show ?thesis
      by (auto simp: apiserver_assets_def)
  next
    case bndl
    with assms bundle_dependencies_implement [OF assms(1) bndl] show ?thesis
      by (auto simp: apiserver_assets_def fst_and_then collect_certs_resolved
          simp del: collect_certs.simps)
  qed
qed

lemma bundle_Generate:
  assumes "a \<in> set apiserver_assets" and "embedded a = CertBundle"
  shows "\<exists>name. Generate a parents =
           and_then (collect_certs parents (Dependencies a) [])
             (\<lambda>certs. Inr (CertBundle_Generate name certs))"
  using assms by (auto simp: apiserver_assets_def simp del: collect_certs.simps)

lemma set_fst_Get: "set (fst (Get p as)) \<subseteq> set as"
  by (induction as) (auto simp: Get1_def split: option.splits sum.splits prod.splits)

lemma collect_certs_reads: "collect_certs p as certs = (reads, r) \<Longrightarrow> set reads \<subseteq> set as"
  by (induction as arbitrary: certs reads r)
     (fastforce simp: Get1_def split: option.splits prod.splits if_splits)+

lemma set_fst_collect_certs: "set (fst (collect_certs p as certs)) \<subseteq> set as"
  using collect_certs_reads [of p as certs] by (cases "collect_certs p as certs") simp

lemma reads_subset_Dependencies:
  assumes "a \<in> set apiserver_assets"
  shows "set (fst (Generate a parents)) \<subseteq> set (Dependencies a)"
proof (cases "embedded a")
  case SignedCertKey
  with assms consider "a = APIServerCertKey" | "a = KubeAPIServerToKubeletClientCertKey"
    | "a = KubeAPIServerLocalhostServerCertKey" | "a = KubeAPIServerServiceNetworkServerCertKey"
    | "a = KubeAPIServerLBServerCertKey"
    by (auto simp: apiserver_assets_def)
  then show ?thesis
  proof cases
    case 1
    with set_fst_Get [of parents "[KubeCA, InstallConfig]"] show ?thesis
      by (simp add: fst_and_then del: Get.simps)
  next
    case 2
    with set_fst_Get [of parents "[KubeAPIServerToKubeletSignerCertKey]"] show ?thesis
      by (simp add: fst_and_then del: Get.simps)
  next
    case 3
    with set_fst_Get [of parents "[KubeAPIServerLocalhostSignerCertKey]"] show ?thesis
      by (simp add: fst_and_then del: Get.simps)
  next
    case 4
    with set_fst_Get [of parents "[KubeAPIServerServiceNetworkSignerCertKey, InstallConfig]"]
    show ?thesis
      by (simp add: fst_and_then del: Get.simps)
  next
    case 5
    with set_fst_Get [of parents "[KubeAPIServerLBSignerCertKey, InstallConfig]"] show ?thesis
      by (simp add: fst_and_then del: Get.simps)
  qed
next
  case SelfSignedCertKey
  with assms show ?thesis
    by (auto simp: apiserver_assets_def)
next
  case CertBundle
  from bundle_Generate [OF assms this, of parents]
    set_fst_collect_certs [of parents "Dependencies a" "[]"]
  show ?thesis
    by (auto simp: fst_and_then)
qed

lemma resolved_parents_dom:
  "dom (resolved_parents network) =
     {KubeCA, InstallConfig, KubeAPIServerToKubeletSignerCertKey,
      KubeAPIServerLocalhostSignerCertKey, KubeAPIServerServiceNetworkSignerCertKey,
      KubeAPIServerLBSignerCertKey}"
  by (auto simp: resolved_parents_def)

text \<open>
  C1. For every asset of the file, \<open>Generate\<close> reads from \<open>Parents\<close> only keys that
  \<open>Dependencies\<close> returns; called with the instances of its declared dependencies
  present in \<open>Parents\<close> (as the executor calls it), it reads every one of them: the set
  of keys read is the set of assets declared.
\<close>

theorem Generate_reads_declared_dependencies:
  assumes "a \<in> set apiserver_assets"
  shows "set (fst (Generate a parents)) \<subseteq> set (Dependencies a) \<and>
         (set (Dependencies a) \<subseteq> dom parents \<longrightarrow>
            set (fst (Generate a parents)) = set (Dependencies a))"
  using reads_subset_Dependencies [OF assms] reads_eq_Dependencies [OF assms] by simp

theorem Generate_reads_declared_dependencies_witness:
  "APIServerCertKey \<in> set apiserver_assets \<and>
   set (Dependencies APIServerCertKey) \<subseteq> dom (resolved_parents service_network) \<and>
   set (fst (Generate APIServerCertKey (resolved_parents service_network))) =
     {KubeCA, InstallConfig}"
proof -
  have a: "APIServerCertKey \<in> set apiserver_assets"
    by (simp add: apiserver_assets_def)
  have d: "set (Dependencies APIServerCertKey) \<subseteq> dom (resolved_parents service_network)"
    by (simp add: resolved_parents_dom)
  from Generate_reads_declared_dependencies [OF a, of "resolved_parents service_network"] a d
  show ?thesis
    by simp
qed

subsection \<open>Roots\<close>

text \<open>
  C7. Every asset of the file that embeds \<open>SelfSignedCertKey\<close>, a self-signed signer,
  returns the empty list from \<open>Dependencies\<close>.
\<close>

theorem signer_no_dependencies:
  "a \<in> set apiserver_assets \<Longrightarrow> embedded a = SelfSignedCertKey \<Longrightarrow> Dependencies a = []"
  by (auto simp: apiserver_assets_def)

theorem signer_no_dependencies_witness:
  "KubeAPIServerLBSignerCertKey \<in> set apiserver_assets \<and>
   embedded KubeAPIServerLBSignerCertKey = SelfSignedCertKey \<and>
   Dependencies KubeAPIServerLBSignerCertKey = []"
proof -
  have a: "KubeAPIServerLBSignerCertKey \<in> set apiserver_assets"
    by (simp add: apiserver_assets_def)
  have e: "embedded KubeAPIServerLBSignerCertKey = SelfSignedCertKey"
    by simp
  from signer_no_dependencies [OF a e] a e show ?thesis
    by (intro conjI)
qed


subsection \<open>Concrete values\<close>


lemma Mask_Size_16: "Mask_Size [255, 255, 0, 0] = (16, 32)"
  by (simp add: Mask_Size_def leading_ones_def)

lemma Mask_Size_32: "Mask_Size [255, 255, 255, 255] = (32, 32)"
  by (simp add: Mask_Size_def leading_ones_def)

lemma cidrhost_service_network: "cidrhost service_network 1 = Inr ''10.0.0.1''"
  by (simp add: cidrhost_def HostAtOffset_def hostLen_def network_address_def ipToInt_def
      service_network_def Mask_Size_16 IP_String_def To4_def IPv4len_def hexDigit_def)

lemma cidrhost_single_address_network:
  "cidrhost single_address_network 1 = Inl (OffsetExceedsNetwork 32 1)"
  by (simp add: cidrhost_def HostAtOffset_def hostLen_def single_address_network_def Mask_Size_32)

lemma ParseIP_10_0_0_1: "ParseIP ''10.0.0.1'' = IPv4 10 0 0 1"
  by (simp add: ParseIP_def parseIPv4_def dtoi_def is_digit_def big_def dtoi_field_def IPv4len_def)

lemma ParseIP_127_0_0_1: "ParseIP ''127.0.0.1'' = IPv4 127 0 0 1"
  by (simp add: ParseIP_def parseIPv4_def dtoi_def is_digit_def big_def dtoi_field_def IPv4len_def)

subsection \<open>What each \<open>Generate\<close> hands over\<close>

text \<open>
  When the \<open>Generate\<close> of a leaf reaches its call of \<open>SignedCertKey.Generate\<close>, both
  parents were present, the address helper has succeeded, and the arguments are the ones
  of the source.
\<close>

lemma Generate_APIServerCertKey_Inr:
  assumes "snd (Generate APIServerCertKey parents) = Inr call"
  shows "\<exists>cfg kubeCA ic addr.
           parents KubeCA = Some kubeCA \<and> parents InstallConfig = Some (InstallConfigAsset ic) \<and>
           cidrhost (IPNet (ServiceCIDR (Networking (Config ic)))) 1 = Inr addr \<and>
           call = SignedCertKey_Generate cfg (KubeCA, kubeCA) ''apiserver'' AppendParent \<and>
           ExtKeyUsages cfg = [ExtKeyUsageServerAuth, ExtKeyUsageClientAuth] \<and>
           Validity cfg = ValidityTenYears \<and> \<not> IsCA cfg \<and>
           DNSNames cfg = [apiAddress (Config ic), ''kubernetes'', ''kubernetes.default'',
             ''kubernetes.default.svc'', ''kubernetes.default.svc.cluster.local'', ''localhost''] \<and>
           IPAddresses cfg = [ParseIP addr, ParseIP ''127.0.0.1'']"
proof (cases "parents KubeCA")
  case None
  with assms show ?thesis by (simp add: and_then_def Get1_def)
next
  case kubeCA: (Some kubeCA)
  show ?thesis
  proof (cases "parents InstallConfig")
    case None
    with assms kubeCA show ?thesis by (simp add: and_then_def Get1_def)
  next
    case (Some v)
    show ?thesis
    proof (cases v)
      case (InstallConfigAsset ic)
      with assms kubeCA Some show ?thesis
        by (cases "cidrhost (IPNet (ServiceCIDR (Networking (Config ic)))) 1")
           (auto simp: and_then_def Get1_def)
    qed (use assms kubeCA Some in \<open>simp_all add: and_then_def Get1_def\<close>)
  qed
qed

lemma Generate_ServiceNetworkServer_Inr:
  assumes "snd (Generate KubeAPIServerServiceNetworkServerCertKey parents) = Inr call"
  shows "\<exists>cfg ca ic addr.
           parents KubeAPIServerServiceNetworkSignerCertKey = Some ca \<and>
           parents InstallConfig = Some (InstallConfigAsset ic) \<and>
           cidrhost (IPNet (ServiceCIDR (Networking (Config ic)))) 1 = Inr addr \<and>
           call = SignedCertKey_Generate cfg (KubeAPIServerServiceNetworkSignerCertKey, ca)
                    ''kube-apiserver-service-network-server'' AppendParent \<and>
           ExtKeyUsages cfg = [ExtKeyUsageServerAuth] \<and>
           Validity cfg = ValidityOneDay \<and> \<not> IsCA cfg \<and>
           IPAddresses cfg = [ParseIP addr]"
proof (cases "parents KubeAPIServerServiceNetworkSignerCertKey")
  case None
  with assms show ?thesis by (simp add: and_then_def Get1_def)
next
  case ca: (Some ca)
  show ?thesis
  proof (cases "parents InstallConfig")
    case None
    with assms ca show ?thesis by (simp add: and_then_def Get1_def)
  next
    case (Some v)
    show ?thesis
    proof (cases v)
      case (InstallConfigAsset ic)
      with assms ca Some show ?thesis
        by (cases "cidrhost (IPNet (ServiceCIDR (Networking (Config ic)))) 1")
           (auto simp: and_then_def Get1_def)
    qed (use assms ca Some in \<open>simp_all add: and_then_def Get1_def\<close>)
  qed
qed

lemma Generate_LBServer_Inr:
  assumes "snd (Generate KubeAPIServerLBServerCertKey parents) = Inr call"
  shows "\<exists>cfg ca ic.
           parents KubeAPIServerLBSignerCertKey = Some ca \<and>
           parents InstallConfig = Some (InstallConfigAsset ic) \<and>
           call = SignedCertKey_Generate cfg (KubeAPIServerLBSignerCertKey, ca)
                    ''kube-apiserver-lb-server'' AppendParent \<and>
           ExtKeyUsages cfg = [ExtKeyUsageServerAuth] \<and>
           Validity cfg = ValidityOneDay \<and> \<not> IsCA cfg \<and>
           DNSNames cfg = [apiAddress (Config ic)]"
proof (cases "parents KubeAPIServerLBSignerCertKey")
  case None
  with assms show ?thesis by (simp add: and_then_def Get1_def)
next
  case ca: (Some ca)
  show ?thesis
  proof (cases "parents InstallConfig")
    case None
    with assms ca show ?thesis by (simp add: and_then_def Get1_def)
  next
    case (Some v)
    with assms ca show ?thesis
      by (cases v) (auto simp: and_then_def Get1_def)
  qed
qed

lemma Generate_ToKubeletClient_Inr:
  assumes "snd (Generate KubeAPIServerToKubeletClientCertKey parents) = Inr call"
  shows "\<exists>cfg ca.
           parents KubeAPIServerToKubeletSignerCertKey = Some ca \<and>
           call = SignedCertKey_Generate cfg (KubeAPIServerToKubeletSignerCertKey, ca)
                    ''kube-apiserver-to-kubelet-client'' DoNotAppendParent \<and>
           ExtKeyUsages cfg = [ExtKeyUsageClientAuth] \<and>
           Validity cfg = ValidityOneYear \<and> \<not> IsCA cfg"
  using assms
  by (cases "parents KubeAPIServerToKubeletSignerCertKey") (auto simp: and_then_def Get1_def)

lemma Generate_LocalhostServer_Inr:
  assumes "snd (Generate KubeAPIServerLocalhostServerCertKey parents) = Inr call"
  shows "\<exists>cfg ca.
           parents KubeAPIServerLocalhostSignerCertKey = Some ca \<and>
           call = SignedCertKey_Generate cfg (KubeAPIServerLocalhostSignerCertKey, ca)
                    ''kube-apiserver-localhost-server'' AppendParent \<and>
           ExtKeyUsages cfg = [ExtKeyUsageServerAuth] \<and>
           Validity cfg = ValidityOneDay \<and> \<not> IsCA cfg"
  using assms
  by (cases "parents KubeAPIServerLocalhostSignerCertKey") (auto simp: and_then_def Get1_def)

lemma snd_and_then_Inr:
  "snd (and_then m k) = Inr c \<longleftrightarrow> (\<exists>x. snd m = Inr x \<and> k x = Inr c)"
  by (auto simp: and_then_def split: prod.splits sum.splits)

lemma includes_CertSign:
  "includes_usage (KeyUsageKeyEncipherment OR KeyUsageDigitalSignature OR KeyUsageCertSign)
     KeyUsageCertSign"
  by (simp add: includes_usage_def KeyUsageKeyEncipherment_def KeyUsageDigitalSignature_def
      KeyUsageCertSign_def)

lemma signer_call:
  assumes "a \<in> set apiserver_assets" and "embedded a = SelfSignedCertKey"
  shows "\<exists>cfg name. Generate a parents = ([], Inr (SelfSignedCertKey_Generate cfg name)) \<and>
           IsCA cfg \<and> includes_usage (KeyUsages cfg) KeyUsageCertSign"
  using assms by (auto simp: apiserver_assets_def includes_CertSign)

lemma leaf_call:
  assumes "a \<in> set apiserver_assets" and "embedded a = SignedCertKey"
    and "snd (Generate a parents) = Inr call"
  shows "\<exists>cfg ca name choice. call = SignedCertKey_Generate cfg ca name choice \<and> \<not> IsCA cfg"
proof -
  from assms(1,2) consider "a = APIServerCertKey" | "a = KubeAPIServerToKubeletClientCertKey"
    | "a = KubeAPIServerLocalhostServerCertKey" | "a = KubeAPIServerServiceNetworkServerCertKey"
    | "a = KubeAPIServerLBServerCertKey"
    by (auto simp: apiserver_assets_def)
  then show ?thesis
  proof cases
    case 1
    with Generate_APIServerCertKey_Inr [of parents call] assms(3) show ?thesis by auto
  next
    case 2
    with Generate_ToKubeletClient_Inr [of parents call] assms(3) show ?thesis by auto
  next
    case 3
    with Generate_LocalhostServer_Inr [of parents call] assms(3) show ?thesis by auto
  next
    case 4
    with Generate_ServiceNetworkServer_Inr [of parents call] assms(3) show ?thesis by auto
  next
    case 5
    with Generate_LBServer_Inr [of parents call] assms(3) show ?thesis by auto
  qed
qed

lemma bundle_call:
  assumes "a \<in> set apiserver_assets" and "embedded a = CertBundle"
    and "snd (Generate a parents) = Inr call"
  shows "\<exists>name certs. call = CertBundle_Generate name certs"
  using assms
  by (auto simp: apiserver_assets_def snd_and_then_Inr)


subsection \<open>Certificate authorities\<close>

text \<open>
  C2. Every certificate configuration that a \<open>Generate\<close> of the file builds with \<open>IsCA\<close>
  set has \<open>x509.KeyUsageCertSign\<close> among its key usages. The four self-signed signers
  build such a configuration, whatever \<open>Parents\<close> holds.
\<close>

theorem IsCA_has_CertSign:
  assumes "a \<in> set apiserver_assets"
  shows "(\<forall>cfg. generated_cfg a parents = Some cfg \<longrightarrow> IsCA cfg \<longrightarrow>
            includes_usage (KeyUsages cfg) KeyUsageCertSign) \<and>
         (embedded a = SelfSignedCertKey \<longrightarrow>
            (\<exists>cfg. generated_cfg a parents = Some cfg \<and> IsCA cfg \<and>
               includes_usage (KeyUsages cfg) KeyUsageCertSign)) \<and>
         length (filter (\<lambda>b. embedded b = SelfSignedCertKey) apiserver_assets) = 4"
proof (intro conjI allI impI)
  fix cfg
  assume g: "generated_cfg a parents = Some cfg" and ca: "IsCA cfg"
  from g obtain call where call: "snd (Generate a parents) = Inr call" "call_cfg call = Some cfg"
    by (auto simp: generated_cfg_def split: sum.splits)
  show "includes_usage (KeyUsages cfg) KeyUsageCertSign"
  proof (cases "embedded a")
    case SignedCertKey
    from leaf_call [OF assms SignedCertKey call(1)] call(2) ca show ?thesis
      by auto
  next
    case SelfSignedCertKey
    from signer_call [OF assms SelfSignedCertKey, of parents] call show ?thesis
      by auto
  next
    case CertBundle
    from bundle_call [OF assms CertBundle call(1)] call(2) show ?thesis
      by auto
  qed
next
  assume "embedded a = SelfSignedCertKey"
  from signer_call [OF assms this, of parents]
  show "\<exists>cfg. generated_cfg a parents = Some cfg \<and> IsCA cfg \<and>
          includes_usage (KeyUsages cfg) KeyUsageCertSign"
    by (auto simp: generated_cfg_def)
next
  show "length (filter (\<lambda>b. embedded b = SelfSignedCertKey) apiserver_assets) = 4"
    by (simp add: apiserver_assets_def)
qed

theorem IsCA_has_CertSign_witness:
  "KubeAPIServerToKubeletSignerCertKey \<in> set apiserver_assets \<and>
   embedded KubeAPIServerToKubeletSignerCertKey = SelfSignedCertKey \<and>
   (\<exists>cfg. generated_cfg KubeAPIServerToKubeletSignerCertKey Map.empty = Some cfg \<and> IsCA cfg \<and>
      includes_usage (KeyUsages cfg) KeyUsageCertSign)"
proof -
  have a: "KubeAPIServerToKubeletSignerCertKey \<in> set apiserver_assets"
    by (simp add: apiserver_assets_def)
  have e: "embedded KubeAPIServerToKubeletSignerCertKey = SelfSignedCertKey"
    by simp
  from IsCA_has_CertSign [OF a, of Map.empty] a e show ?thesis
    by blast
qed


subsection \<open>The two installations, evaluated\<close>

lemma resolved_parents_simps:
  "resolved_parents network KubeCA = Some (CertKeyAsset [1] [2])"
  "resolved_parents network InstallConfig = Some (InstallConfigAsset (install_config_of network))"
  "resolved_parents network KubeAPIServerToKubeletSignerCertKey = Some (CertKeyAsset [3] [4])"
  "resolved_parents network KubeAPIServerLocalhostSignerCertKey = Some (CertKeyAsset [5] [6])"
  "resolved_parents network KubeAPIServerServiceNetworkSignerCertKey = Some (CertKeyAsset [7] [8])"
  "resolved_parents network KubeAPIServerLBSignerCertKey = Some (CertKeyAsset [9] [10])"
  by (simp_all add: resolved_parents_def)

lemma install_config_of_network:
  "IPNet (ServiceCIDR (Networking (Config (install_config_of network)))) = network"
  by (simp add: install_config_of_def)

lemma generated_cfg_APIServerCertKey_service_network:
  "generated_cfg APIServerCertKey (resolved_parents service_network) =
     Some \<lparr>Subject = \<lparr>CommonName = ''system:kube-apiserver'',
                       Organization = [''kube-master''],
                       OrganizationalUnit = []\<rparr>,
           KeyUsages = KeyUsageKeyEncipherment OR KeyUsageDigitalSignature,
           ExtKeyUsages = [ExtKeyUsageServerAuth, ExtKeyUsageClientAuth],
           Validity = ValidityTenYears,
           IsCA = False,
           DNSNames =
             [''api.cluster.example.com'',
              ''kubernetes'', ''kubernetes.default'',
              ''kubernetes.default.svc'',
              ''kubernetes.default.svc.cluster.local'',
              ''localhost''],
           IPAddresses = [IPv4 10 0 0 1, IPv4 127 0 0 1]\<rparr>"
  by (simp add: generated_cfg_def and_then_def Get1_def resolved_parents_simps
      install_config_of_network cidrhost_service_network [unfolded One_nat_def]
      ParseIP_10_0_0_1 ParseIP_127_0_0_1 apiAddress_def install_config_of_def)

subsection \<open>Chain policy\<close>

text \<open>
  C10. A leaf of the file whose extended key usages include server authentication
  passes \<open>AppendParent\<close> to \<open>SignedCertKey.Generate\<close>. The only leaf without server
  authentication is \<open>KubeAPIServerToKubeletClientCertKey\<close>, whose only extended key
  usage is client authentication and which passes \<open>DoNotAppendParent\<close>.
\<close>

theorem chain_policy:
  assumes "a \<in> set apiserver_assets"
    and "snd (Generate a parents) = Inr (SignedCertKey_Generate cfg ca name choice)"
  shows "(ExtKeyUsageServerAuth \<in> set (ExtKeyUsages cfg) \<longrightarrow> choice = AppendParent) \<and>
         (ExtKeyUsageServerAuth \<notin> set (ExtKeyUsages cfg) \<longrightarrow>
            a = KubeAPIServerToKubeletClientCertKey) \<and>
         (a = KubeAPIServerToKubeletClientCertKey \<longrightarrow>
            ExtKeyUsages cfg = [ExtKeyUsageClientAuth] \<and> choice = DoNotAppendParent)"
proof (cases "embedded a")
  case SignedCertKey
  with assms(1) consider "a = APIServerCertKey" | "a = KubeAPIServerToKubeletClientCertKey"
    | "a = KubeAPIServerLocalhostServerCertKey" | "a = KubeAPIServerServiceNetworkServerCertKey"
    | "a = KubeAPIServerLBServerCertKey"
    by (auto simp: apiserver_assets_def)
  then show ?thesis
  proof cases
    case 1
    with Generate_APIServerCertKey_Inr [of parents] assms(2) show ?thesis by auto
  next
    case 2
    with Generate_ToKubeletClient_Inr [of parents] assms(2) show ?thesis by auto
  next
    case 3
    with Generate_LocalhostServer_Inr [of parents] assms(2) show ?thesis by auto
  next
    case 4
    with Generate_ServiceNetworkServer_Inr [of parents] assms(2) show ?thesis by auto
  next
    case 5
    with Generate_LBServer_Inr [of parents] assms(2) show ?thesis by auto
  qed
next
  case SelfSignedCertKey
  from signer_call [OF assms(1) this, of parents] assms(2) show ?thesis
    by auto
next
  case CertBundle
  from bundle_call [OF assms(1) this assms(2)] show ?thesis
    by auto
qed


theorem chain_policy_witness:
  "KubeAPIServerToKubeletClientCertKey \<in> set apiserver_assets \<and>
   snd (Generate KubeAPIServerToKubeletClientCertKey (resolved_parents service_network)) =
     Inr (SignedCertKey_Generate
       \<lparr>Subject = \<lparr>CommonName = ''system:kube-apiserver'',
                    Organization = [''kube-master''],
                    OrganizationalUnit = []\<rparr>,
        KeyUsages = KeyUsageKeyEncipherment OR KeyUsageDigitalSignature,
        ExtKeyUsages = [ExtKeyUsageClientAuth],
        Validity = ValidityOneYear,
        IsCA = False,
        DNSNames = [],
        IPAddresses = []\<rparr>
       (KubeAPIServerToKubeletSignerCertKey, CertKeyAsset [3] [4])
       ''kube-apiserver-to-kubelet-client'' DoNotAppendParent) \<and>
   ExtKeyUsageServerAuth \<notin> set [ExtKeyUsageClientAuth] \<and>
   DoNotAppendParent = DoNotAppendParent"
proof -
  have a: "KubeAPIServerToKubeletClientCertKey \<in> set apiserver_assets"
    by (simp add: apiserver_assets_def)
  have g: "snd (Generate KubeAPIServerToKubeletClientCertKey (resolved_parents service_network)) =
     Inr (SignedCertKey_Generate
       \<lparr>Subject = \<lparr>CommonName = ''system:kube-apiserver'',
                    Organization = [''kube-master''],
                    OrganizationalUnit = []\<rparr>,
        KeyUsages = KeyUsageKeyEncipherment OR KeyUsageDigitalSignature,
        ExtKeyUsages = [ExtKeyUsageClientAuth],
        Validity = ValidityOneYear,
        IsCA = False,
        DNSNames = [],
        IPAddresses = []\<rparr>
       (KubeAPIServerToKubeletSignerCertKey, CertKeyAsset [3] [4])
       ''kube-apiserver-to-kubelet-client'' DoNotAppendParent)"
    by (simp add: and_then_def Get1_def resolved_parents_simps)
  from chain_policy [OF a g] a g show ?thesis
    by simp
qed

subsection \<open>The deprecated api-server certificate\<close>

text \<open>
  C3, as the spec states it, fails: with the service network \<open>10.0.0.0/16\<close> the
  configuration that \<open>APIServerCertKey\<close> builds has the validity \<open>ValidityTenYears\<close>,
  which is not \<open>ValidityOneDay\<close>.
\<close>

theorem APIServerCertKey_one_day_counterexample:
  "map_option Validity (generated_cfg APIServerCertKey (resolved_parents service_network)) =
     Some ValidityTenYears \<and>
   ValidityTenYears \<noteq> ValidityOneDay"
  by (simp add: generated_cfg_APIServerCertKey_service_network)

text \<open>
  C3, amended. Whenever \<open>APIServerCertKey\<close> builds its certificate configuration, it
  hands it to \<open>SignedCertKey.Generate\<close> under the base name \<open>apiserver\<close> with the
  validity \<open>ValidityTenYears\<close>.
\<close>

theorem APIServerCertKey_ten_years:
  assumes "generated_cfg APIServerCertKey parents \<noteq> None"
  shows "\<exists>cfg ca. snd (Generate APIServerCertKey parents) =
             Inr (SignedCertKey_Generate cfg ca ''apiserver'' AppendParent) \<and>
           Validity cfg = ValidityTenYears"
proof -
  from assms obtain call where "snd (Generate APIServerCertKey parents) = Inr call"
    by (auto simp: generated_cfg_def split: sum.splits)
  from Generate_APIServerCertKey_Inr [OF this] this show ?thesis
    by auto
qed

theorem APIServerCertKey_ten_years_witness:
  "generated_cfg APIServerCertKey (resolved_parents service_network) \<noteq> None \<and>
   (\<exists>cfg ca. snd (Generate APIServerCertKey (resolved_parents service_network)) =
       Inr (SignedCertKey_Generate cfg ca ''apiserver'' AppendParent) \<and>
     Validity cfg = ValidityTenYears)"
proof -
  have h: "generated_cfg APIServerCertKey (resolved_parents service_network) \<noteq> None"
    by (simp add: generated_cfg_APIServerCertKey_service_network)
  from APIServerCertKey_ten_years [OF h] h show ?thesis
    by (intro conjI)
qed

subsection \<open>Subject alternative names\<close>

text \<open>
  C4. With the service network \<open>10.0.0.0/16\<close> in the install config, the configuration
  that \<open>APIServerCertKey\<close> builds has \<open>kubernetes.default\<close> and the cluster's API
  address among its DNS names and the address \<open>10.0.0.1\<close>, as \<open>net.ParseIP\<close> returns
  it, among its IP addresses.
\<close>

theorem APIServerCertKey_subject_alternative_names:
  assumes "parents KubeCA = Some kubeCA"
    and "parents InstallConfig = Some (InstallConfigAsset installConfig)"
    and "IPNet (ServiceCIDR (Networking (Config installConfig))) =
           \<lparr>IP = [10, 0, 0, 0], Mask = [255, 255, 0, 0]\<rparr>"
  shows "\<exists>cfg. snd (Generate APIServerCertKey parents) =
             Inr (SignedCertKey_Generate cfg (KubeCA, kubeCA) ''apiserver'' AppendParent) \<and>
           ''kubernetes.default'' \<in> set (DNSNames cfg) \<and>
           apiAddress (Config installConfig) \<in> set (DNSNames cfg) \<and>
           IPv4 10 0 0 1 \<in> set (IPAddresses cfg) \<and>
           IP_String (IPv4 10 0 0 1) = ''10.0.0.1''"
proof -
  have "cidrhost (IPNet (ServiceCIDR (Networking (Config installConfig)))) 1 = Inr ''10.0.0.1''"
    using assms(3) cidrhost_service_network by (simp add: service_network_def)
  moreover have "IP_String (IPv4 10 0 0 1) = ''10.0.0.1''"
    by (simp add: IP_String_def To4_def IPv4_def v4InV6Prefix_def IPv4len_def IPv6len_def
        hexDigit_def)
  ultimately show ?thesis
    using assms(1,2) by (simp add: and_then_def Get1_def ParseIP_10_0_0_1)
qed

theorem APIServerCertKey_subject_alternative_names_witness:
  "resolved_parents service_network KubeCA = Some (CertKeyAsset [1] [2]) \<and>
   resolved_parents service_network InstallConfig =
     Some (InstallConfigAsset (install_config_of service_network)) \<and>
   IPNet (ServiceCIDR (Networking (Config (install_config_of service_network)))) =
     \<lparr>IP = [10, 0, 0, 0], Mask = [255, 255, 0, 0]\<rparr> \<and>
   (\<exists>cfg. snd (Generate APIServerCertKey (resolved_parents service_network)) =
       Inr (SignedCertKey_Generate cfg (KubeCA, CertKeyAsset [1] [2]) ''apiserver'' AppendParent) \<and>
     ''kubernetes.default'' \<in> set (DNSNames cfg) \<and>
     ''api.cluster.example.com'' \<in> set (DNSNames cfg) \<and>
     IPv4 10 0 0 1 \<in> set (IPAddresses cfg))"
proof -
  have k: "resolved_parents service_network KubeCA = Some (CertKeyAsset [1] [2])"
    by (simp add: resolved_parents_simps)
  have i: "resolved_parents service_network InstallConfig =
     Some (InstallConfigAsset (install_config_of service_network))"
    by (simp add: resolved_parents_simps)
  have n: "IPNet (ServiceCIDR (Networking (Config (install_config_of service_network)))) =
     \<lparr>IP = [10, 0, 0, 0], Mask = [255, 255, 0, 0]\<rparr>"
    by (simp add: install_config_of_network service_network_def)
  have "apiAddress (Config (install_config_of service_network)) = ''api.cluster.example.com''"
    by (simp add: apiAddress_def install_config_of_def)
  with APIServerCertKey_subject_alternative_names [OF k i n] k i n show ?thesis
    by auto
qed


subsection \<open>Bundles\<close>

text \<open>
  C5. The \<open>Generate\<close> of every bundle of the file, called with the instances of its
  declared dependencies present in \<open>Parents\<close>, passes to \<open>CertBundle.Generate\<close> one
  certificate holder for each asset of \<open>Dependencies\<close>, in the order of that list, each
  the instance that \<open>Parents\<close> holds for the asset.
\<close>

theorem bundle_passes_dependencies_in_order:
  assumes "a \<in> set apiserver_assets" and "embedded a = CertBundle"
    and "set (Dependencies a) \<subseteq> dom parents"
  shows "\<exists>name certs. snd (Generate a parents) = Inr (CertBundle_Generate name certs) \<and>
           map fst certs = Dependencies a \<and>
           (\<forall>c \<in> set certs. parents (fst c) = Some (snd c))"
proof -
  from bundle_Generate [OF assms(1,2)] obtain name where
    g: "Generate a parents =
          and_then (collect_certs parents (Dependencies a) [])
            (\<lambda>certs. Inr (CertBundle_Generate name certs))"
    by blast
  let ?certs = "map (\<lambda>d. (d, the (parents d))) (Dependencies a)"
  have "collect_certs parents (Dependencies a) [] = (Dependencies a, Inr ?certs)"
    using collect_certs_resolved [OF assms(3) bundle_dependencies_implement [OF assms(1,2)], of "[]"]
    by simp
  with g have "snd (Generate a parents) = Inr (CertBundle_Generate name ?certs)"
    by (simp add: and_then_def)
  moreover have "map fst ?certs = Dependencies a"
    by (simp add: comp_def)
  moreover have "\<forall>c \<in> set ?certs. parents (fst c) = Some (snd c)"
    using assms(3) by auto
  ultimately show ?thesis
    by blast
qed

theorem bundle_passes_dependencies_in_order_witness:
  "KubeAPIServerLBCABundle \<in> set apiserver_assets \<and>
   embedded KubeAPIServerLBCABundle = CertBundle \<and>
   set (Dependencies KubeAPIServerLBCABundle) \<subseteq> dom (resolved_parents service_network) \<and>
   snd (Generate KubeAPIServerLBCABundle (resolved_parents service_network)) =
     Inr (CertBundle_Generate ''kube-apiserver-lb-ca-bundle''
       [(KubeAPIServerLBSignerCertKey, CertKeyAsset [9] [10])])"
proof -
  have a: "KubeAPIServerLBCABundle \<in> set apiserver_assets"
    by (simp add: apiserver_assets_def)
  have e: "embedded KubeAPIServerLBCABundle = CertBundle"
    by simp
  have d: "set (Dependencies KubeAPIServerLBCABundle) \<subseteq> dom (resolved_parents service_network)"
    by (simp add: resolved_parents_dom)
  from bundle_passes_dependencies_in_order [OF a e d] obtain name certs where
    g: "snd (Generate KubeAPIServerLBCABundle (resolved_parents service_network)) =
          Inr (CertBundle_Generate name certs)"
    and k: "map fst certs = Dependencies KubeAPIServerLBCABundle"
    and v: "\<forall>c \<in> set certs. resolved_parents service_network (fst c) = Some (snd c)"
    by blast
  from k obtain c where c: "certs = [c]" "fst c = KubeAPIServerLBSignerCertKey"
    by auto
  with v have "snd c = CertKeyAsset [9] [10]"
    by (simp add: resolved_parents_simps)
  with c have "certs = [(KubeAPIServerLBSignerCertKey, CertKeyAsset [9] [10])]"
    by (cases c) simp
  moreover from g have "name = ''kube-apiserver-lb-ca-bundle''"
    by (simp add: and_then_def split: prod.splits sum.splits)
  ultimately show ?thesis
    using a e d g by simp
qed

text \<open>
  C9. Every asset that the \<open>Dependencies\<close> of a bundle of the file returns implements
  \<open>CertInterface\<close>, and the \<open>Generate\<close> of the bundle never ends in the panic of the
  type assertion, whatever \<open>Parents\<close> holds.
\<close>

theorem bundle_type_assertion_succeeds:
  assumes "a \<in> set apiserver_assets" and "embedded a = CertBundle"
  shows "(\<forall>d \<in> set (Dependencies a). implements_CertInterface d) \<and>
         (\<forall>d. snd (Generate a parents) \<noteq> Inl (Panic (InterfaceConversion d)))"
proof
  show i: "\<forall>d \<in> set (Dependencies a). implements_CertInterface d"
    by (rule bundle_dependencies_implement [OF assms])
  from bundle_Generate [OF assms] obtain name where
    g: "Generate a parents =
          and_then (collect_certs parents (Dependencies a) [])
            (\<lambda>certs. Inr (CertBundle_Generate name certs))"
    by blast
  show "\<forall>d. snd (Generate a parents) \<noteq> Inl (Panic (InterfaceConversion d))"
  proof
    fix d
    show "snd (Generate a parents) \<noteq> Inl (Panic (InterfaceConversion d))"
      using collect_certs_no_conversion_panic [OF i, of parents "[]" _ d] g
      by (auto simp: and_then_def split: prod.splits sum.splits)
  qed
qed

theorem bundle_type_assertion_succeeds_witness:
  "KubeAPIServerToKubeletCABundle \<in> set apiserver_assets \<and>
   embedded KubeAPIServerToKubeletCABundle = CertBundle \<and>
   Dependencies KubeAPIServerToKubeletCABundle = [KubeAPIServerToKubeletSignerCertKey] \<and>
   implements_CertInterface KubeAPIServerToKubeletSignerCertKey \<and>
   snd (Generate KubeAPIServerToKubeletCABundle Map.empty) \<noteq>
     Inl (Panic (InterfaceConversion KubeAPIServerToKubeletSignerCertKey))"
proof -
  have a: "KubeAPIServerToKubeletCABundle \<in> set apiserver_assets"
    by (simp add: apiserver_assets_def)
  have e: "embedded KubeAPIServerToKubeletCABundle = CertBundle"
    by simp
  from bundle_type_assertion_succeeds [OF a e, of Map.empty] a e show ?thesis
    by simp
qed

subsection \<open>Failure of the address helper\<close>

text \<open>
  C6. When the address helper fails on the service network of the install config,
  \<open>APIServerCertKey.Generate\<close> and \<open>KubeAPIServerServiceNetworkServerCertKey.Generate\<close>
  return the helper's error wrapped with their message; they build no configuration and
  do not reach the call of \<open>SignedCertKey.Generate\<close>.
\<close>

theorem service_address_failure:
  assumes "parents InstallConfig = Some (InstallConfigAsset installConfig)"
    and "cidrhost (IPNet (ServiceCIDR (Networking (Config installConfig)))) 1 = Inl err"
    and "parents KubeCA = Some kubeCA"
    and "parents KubeAPIServerServiceNetworkSignerCertKey = Some ca"
  shows "snd (Generate APIServerCertKey parents) =
           Inl (Error (Wrap err ''failed to get API Server address from InstallConfig'')) \<and>
         snd (Generate KubeAPIServerServiceNetworkServerCertKey parents) =
           Inl (Error (Wrap err
             ''failed to get service address for kube-apiserver from InstallConfig'')) \<and>
         generated_cfg APIServerCertKey parents = None \<and>
         generated_cfg KubeAPIServerServiceNetworkServerCertKey parents = None"
  using assms by (simp add: generated_cfg_def and_then_def Get1_def)

theorem service_address_failure_witness:
  "resolved_parents single_address_network InstallConfig =
     Some (InstallConfigAsset (install_config_of single_address_network)) \<and>
   cidrhost (IPNet (ServiceCIDR (Networking (Config (install_config_of single_address_network))))) 1 =
     Inl (OffsetExceedsNetwork 32 1) \<and>
   resolved_parents single_address_network KubeCA = Some (CertKeyAsset [1] [2]) \<and>
   resolved_parents single_address_network KubeAPIServerServiceNetworkSignerCertKey =
     Some (CertKeyAsset [7] [8]) \<and>
   snd (Generate APIServerCertKey (resolved_parents single_address_network)) =
     Inl (Error (Wrap (OffsetExceedsNetwork 32 1)
       ''failed to get API Server address from InstallConfig'')) \<and>
   snd (Generate KubeAPIServerServiceNetworkServerCertKey (resolved_parents single_address_network)) =
     Inl (Error (Wrap (OffsetExceedsNetwork 32 1)
       ''failed to get service address for kube-apiserver from InstallConfig''))"
proof -
  have i: "resolved_parents single_address_network InstallConfig =
     Some (InstallConfigAsset (install_config_of single_address_network))"
    by (simp add: resolved_parents_simps)
  have c: "cidrhost (IPNet (ServiceCIDR (Networking (Config (install_config_of single_address_network))))) 1 =
     Inl (OffsetExceedsNetwork 32 1)"
    by (simp only: install_config_of_network cidrhost_single_address_network)
  have k: "resolved_parents single_address_network KubeCA = Some (CertKeyAsset [1] [2])"
    by (simp add: resolved_parents_simps)
  have s: "resolved_parents single_address_network KubeAPIServerServiceNetworkSignerCertKey =
     Some (CertKeyAsset [7] [8])"
    by (simp add: resolved_parents_simps)
  from service_address_failure [OF i c k s] i c k s show ?thesis
    by (intro conjI) simp_all
qed

subsection \<open>The address helper\<close>

lemma ipToInt_snoc: "ipToInt (ip @ [b]) = ipToInt ip * 256 + unat b"
  by (simp add: ipToInt_def)

lemma ipToInt_lt: "ipToInt ip < 256 ^ length ip"
proof (induction ip rule: rev_induct)
  case Nil
  show ?case by (simp add: ipToInt_def)
next
  case (snoc b ip)
  have "unat b < 256"
    using unsigned_less [of b] by simp
  with snoc show ?case
    by (simp add: ipToInt_snoc)
qed

lemma length_intToIP: "length (intToIP len v) = len"
  by (induction len arbitrary: v) auto

lemma ipToInt_intToIP: "v < 256 ^ len \<Longrightarrow> ipToInt (intToIP len v) = v"
proof (induction len arbitrary: v)
  case 0
  then show ?case by (simp add: ipToInt_def)
next
  case (Suc len)
  from Suc.prems have "v div 256 < 256 ^ len"
    by (simp add: less_mult_imp_div_less mult.commute)
  from Suc.IH [OF this] show ?case
    by (simp add: ipToInt_snoc unat_of_nat)
qed

lemma hostLen_le: "hostLen network \<le> length (Mask network) * 8"
  by (simp add: hostLen_def Mask_Size_def split: option.splits)

lemma host_in_network:
  assumes "offset < 2 ^ h"
  shows "(v div 2 ^ h * 2 ^ h + offset) div 2 ^ h = (v::nat) div 2 ^ h"
  using assms by simp

lemma host_below_top:
  assumes "offset < 2 ^ h" and "v < 2 ^ n" and "h \<le> n"
  shows "(v::nat) div 2 ^ h * 2 ^ h + offset < 2 ^ n"
proof -
  from assms(2,3) have "v div 2 ^ h < 2 ^ (n - h)"
    by (simp add: less_mult_imp_div_less power_add [symmetric])
  then have "v div 2 ^ h + 1 \<le> 2 ^ (n - h)"
    by simp
  then have "(v div 2 ^ h + 1) * 2 ^ h \<le> 2 ^ (n - h) * 2 ^ h"
    by (rule mult_le_mono1)
  also have "\<dots> = 2 ^ n"
    using assms(3) by (simp add: power_add [symmetric])
  finally show ?thesis
    using assms(1) by simp
qed

lemma hostLen_service_network: "hostLen service_network = 16"
  by (simp add: hostLen_def service_network_def Mask_Size_16)

lemma hostLen_single_address_network: "hostLen single_address_network = 0"
  by (simp add: hostLen_def single_address_network_def Mask_Size_32)

text \<open>
  C8. The address helper is a function of the network and the offset. It fails for an
  offset that is not below the size \<open>2 ^ hostLen\<close> of the network's address space; for
  any other offset \<open>N\<close> it returns the text of an address as long as the network's, and
  for a network whose mask is no longer than its address this address is \<open>N\<close> above the
  network's own address and has the network's prefix.
\<close>

theorem cidrhost_offset:
  "(2 ^ hostLen network \<le> offset \<longrightarrow>
      cidrhost network offset =
        Inl (OffsetExceedsNetwork (fst (Mask_Size (Mask network))) offset)) \<and>
   (offset < 2 ^ hostLen network \<longrightarrow>
      (\<exists>ip. HostAtOffset network offset = Inr ip \<and>
         cidrhost network offset = Inr (IP_String ip) \<and>
         length ip = length (IP network) \<and>
         (length (Mask network) \<le> length (IP network) \<longrightarrow>
            ipToInt ip = network_address network + offset \<and>
            ipToInt ip div 2 ^ hostLen network = ipToInt (IP network) div 2 ^ hostLen network)))"
proof (intro conjI impI)
  assume "2 ^ hostLen network \<le> offset"
  then show "cidrhost network offset =
      Inl (OffsetExceedsNetwork (fst (Mask_Size (Mask network))) offset)"
    by (simp add: cidrhost_def HostAtOffset_def)
next
  assume lt: "offset < 2 ^ hostLen network"
  let ?ip = "intToIP (length (IP network)) (network_address network + offset)"
  have h: "HostAtOffset network offset = Inr ?ip"
    using lt by (simp add: HostAtOffset_def)
  have c: "cidrhost network offset = Inr (IP_String ?ip)"
    using h by (simp add: cidrhost_def)
  have l: "length ?ip = length (IP network)"
    by (simp add: length_intToIP)
  have m: "ipToInt ?ip = network_address network + offset \<and>
           ipToInt ?ip div 2 ^ hostLen network = ipToInt (IP network) div 2 ^ hostLen network"
    if len: "length (Mask network) \<le> length (IP network)"
  proof -
    have "hostLen network \<le> 8 * length (IP network)"
      using hostLen_le [of network] len by simp
    moreover have "ipToInt (IP network) < 2 ^ (8 * length (IP network))"
      using ipToInt_lt [of "IP network"] by (simp add: power_mult)
    ultimately have "network_address network + offset < 2 ^ (8 * length (IP network))"
      unfolding network_address_def using lt by (intro host_below_top)
    then have "network_address network + offset < 256 ^ length (IP network)"
      by (simp add: power_mult)
    then have "ipToInt ?ip = network_address network + offset"
      by (rule ipToInt_intToIP)
    moreover have "(network_address network + offset) div 2 ^ hostLen network =
        ipToInt (IP network) div 2 ^ hostLen network"
      unfolding network_address_def using lt by (rule host_in_network)
    ultimately show ?thesis
      by simp
  qed
  from h c l m show "\<exists>ip. HostAtOffset network offset = Inr ip \<and>
         cidrhost network offset = Inr (IP_String ip) \<and>
         length ip = length (IP network) \<and>
         (length (Mask network) \<le> length (IP network) \<longrightarrow>
            ipToInt ip = network_address network + offset \<and>
            ipToInt ip div 2 ^ hostLen network = ipToInt (IP network) div 2 ^ hostLen network)"
    by blast
qed

theorem cidrhost_offset_witness:
  "(1::nat) < 2 ^ hostLen service_network \<and>
   cidrhost service_network 1 = Inr ''10.0.0.1'' \<and>
   HostAtOffset service_network 1 = Inr [10, 0, 0, 1] \<and>
   (2::nat) ^ hostLen single_address_network \<le> 1 \<and>
   cidrhost single_address_network 1 = Inl (OffsetExceedsNetwork 32 1)"
proof -
  have s: "(1::nat) < 2 ^ hostLen service_network"
    by (simp add: hostLen_service_network)
  have f: "(2::nat) ^ hostLen single_address_network \<le> 1"
    by (simp add: hostLen_single_address_network)
  have m: "fst (Mask_Size (Mask single_address_network)) = 32"
    by (simp add: single_address_network_def Mask_Size_32)
  from cidrhost_offset [of service_network 1] s
  obtain ip where ip: "HostAtOffset service_network 1 = Inr ip"
      "cidrhost service_network 1 = Inr (IP_String ip)"
    by blast
  have "HostAtOffset service_network 1 = Inr [10, 0, 0, 1]"
    using s by (simp add: HostAtOffset_def network_address_def ipToInt_def
        service_network_def hostLen_service_network [unfolded service_network_def])
  with ip have "cidrhost service_network 1 = Inr (IP_String [10, 0, 0, 1])"
    by simp
  then have c: "cidrhost service_network 1 = Inr ''10.0.0.1''"
    by (simp add: IP_String_def To4_def IPv4len_def hexDigit_def)
  from cidrhost_offset [of single_address_network 1] f m
  have "cidrhost single_address_network 1 = Inl (OffsetExceedsNetwork 32 1)"
    by simp
  with s f c \<open>HostAtOffset service_network 1 = Inr [10, 0, 0, 1]\<close> show ?thesis
    by simp
qed

end
